theory Spec2Isabelle
  imports Complex_Main "HOL-Library.Multiset"
begin

section \<open>Related-post recommendation (content-utils): data model\<close>

text \<open>
  The front matter of a post as \<open>getRelatedPosts\<close> reads it.  \<open>tags\<close>,
  \<open>category\<close> and \<open>password\<close> may be missing (\<open>undefined\<close> or \<open>null\<close>), which is
  \<open>None\<close>; \<open>published\<close> is a valid \<open>Date\<close>, kept as the integer number of milliseconds
  that \<open>getTime()\<close> returns.  Strings are \<open>string\<close>, compared by equality only.
  \<open>Date.now()\<close> is an integer number of milliseconds and \<open>maxCount\<close> is an integer,
  of either sign.
\<close>

record PostData =
  title :: string
  tags :: "string list option"
  category :: "string option"
  published :: int
  password :: "string option"
  draft :: bool

text \<open>\<open>CollectionEntry<"posts">\<close>: the fields \<open>id\<close>, \<open>data\<close> and \<open>body\<close>.\<close>

record CollectionEntry =
  entry_id :: string
  entry_data :: PostData
  entry_body :: string

text \<open>\<open>PostForList\<close>: the projection \<open>{ id, data }\<close> handed to the page.\<close>

record PostForList =
  item_id :: string
  item_data :: PostData

text \<open>
  The object built by the callback of \<open>candidates.map\<close>: the post, the total and the
  three sub-scores the source writes into it.  The numbers are of a type \<open>'n\<close>.  The
  scorer below computes the scores exactly, as real numbers.  The engine stores doubles,
  which round every operation and may reach \<open>Infinity\<close>; they are linearly ordered
  (\<open>NaN\<close> does not arise: a sub-score is a non-negative double or \<open>Infinity\<close>, and so are
  their sums).  What depends on the order of the numbers is therefore defined and proved
  for every linearly ordered \<open>'n\<close>.
\<close>

record 'n ScoredCandidate =
  post :: CollectionEntry
  totalScore :: 'n
  tagMatchScore :: 'n
  timeFreshnessScore :: 'n
  categoryBonus :: 'n

text \<open>
  What the platform supplies to \<open>tokenizeTitle\<close>: the segments of
  \<open>new Intl.Segmenter("zh", { granularity: "word" }).segment(title)\<close>, each with its
  \<open>isWordLike\<close> flag, and \<open>String.prototype.toLowerCase\<close>.  Both are parameters of the
  model.
\<close>

record runtime =
  segment :: "string \<Rightarrow> (string \<times> bool) list"
  toLowerCase :: "string \<Rightarrow> string"


subsection \<open>JavaScript values\<close>

text \<open>Truthiness of an optional string: missing and the empty string are falsy.\<close>

definition truthy :: "string option \<Rightarrow> bool" where
  "truthy v = (case v of None \<Rightarrow> False | Some s \<Rightarrow> s \<noteq> [])"

text \<open>\<open>v || ""\<close> on an optional string and \<open>v || []\<close> on an optional array.\<close>

definition orEmptyString :: "string option \<Rightarrow> string" where
  "orEmptyString v = (case v of None \<Rightarrow> [] | Some s \<Rightarrow> s)"

definition orEmptyArray :: "'a list option \<Rightarrow> 'a list" where
  "orEmptyArray v = (case v of None \<Rightarrow> [] | Some xs \<Rightarrow> xs)"

text \<open>
  A \<open>Set\<close> is the list of its members in insertion order, free of duplicates:
  \<open>add\<close> appends a new member and ignores a present one, \<open>size\<close> is the length.
\<close>

type_synonym 'a jsset = "'a list"

definition set_add :: "'a jsset \<Rightarrow> 'a \<Rightarrow> 'a jsset" where
  "set_add s x = (if x \<in> set s then s else s @ [x])"

definition set_has :: "'a jsset \<Rightarrow> 'a \<Rightarrow> bool" where
  "set_has s x = (x \<in> set s)"

definition set_size :: "'a jsset \<Rightarrow> int" where
  "set_size s = int (length s)"

definition newSet :: "'a list \<Rightarrow> 'a jsset" where
  "newSet xs = fold (\<lambda>x s. set_add s x) xs []"

text \<open>
  What \<open>sort\<close> reads from a comparator result \<open>x - y\<close>: its sign.  The difference of
  two doubles is negative, zero or positive as \<open>x\<close> is below, equal to or above \<open>y\<close>;
  \<open>Infinity - Infinity\<close> is \<open>NaN\<close>, which \<open>sort\<close> reads as 0.
\<close>

definition signOfDifference :: "'n::linorder \<Rightarrow> 'n \<Rightarrow> real" where
  "signOfDifference x y = (if x < y then - 1 else if y < x then 1 else 0)"

text \<open>
  Modelled from the spec: \<open>Array.prototype.sort\<close> is the engine's built-in and not part
  of the sources.  It is modelled as the stable sort the specification describes (``a
  sort that preserves the relative input order of elements considered equal by the sort
  key''): insertion from the right, where an element goes in front of the first element
  it does not have to follow (\<open>cmp x y \<le> 0\<close>).
\<close>

fun insertBy :: "('a \<Rightarrow> 'a \<Rightarrow> real) \<Rightarrow> 'a \<Rightarrow> 'a list \<Rightarrow> 'a list" where
  "insertBy cmp x [] = [x]"
| "insertBy cmp x (y # ys) =
     (if cmp x y \<le> 0 then x # y # ys else y # insertBy cmp x ys)"

definition array_sort :: "('a \<Rightarrow> 'a \<Rightarrow> real) \<Rightarrow> 'a list \<Rightarrow> 'a list" where
  "array_sort cmp xs = foldr (insertBy cmp) xs []"

section \<open>Tokenizer and Jaccard similarity\<close>

definition tokenizeTitle :: "runtime \<Rightarrow> string \<Rightarrow> string jsset" where
  "tokenizeTitle rt t =
     fold (\<lambda>(seg, isWordLike) tokens.
             if \<not> isWordLike then tokens else set_add tokens (toLowerCase rt seg))
          (segment rt t) []"

text \<open>The counting loop of \<open>jaccardSimilarity\<close> and the value of its \<open>union\<close>.\<close>

definition intersectionCount :: "'a jsset \<Rightarrow> 'a jsset \<Rightarrow> int" where
  "intersectionCount a b = fold (\<lambda>item n. if set_has b item then n + 1 else n) a 0"

definition unionSize :: "'a jsset \<Rightarrow> 'a jsset \<Rightarrow> int" where
  "unionSize a b = set_size a + set_size b - intersectionCount a b"

definition jaccardSimilarity :: "'a jsset \<Rightarrow> 'a jsset \<Rightarrow> real" where
  "jaccardSimilarity a b =
     (if set_size a = 0 \<and> set_size b = 0 then 0
      else if unionSize a b = 0 then 0
      else real_of_int (intersectionCount a b) / real_of_int (unionSize a b))"

section \<open>Scoring one candidate\<close>

text \<open>\<open>titleSimilarityScore\<close> and \<open>daysSincePublished\<close> of the \<open>map\<close> callback.\<close>

definition titleSimilarityScore :: "runtime \<Rightarrow> CollectionEntry \<Rightarrow> CollectionEntry \<Rightarrow> real" where
  "titleSimilarityScore rt currentPost p =
     jaccardSimilarity (tokenizeTitle rt (title (entry_data currentPost)))
                       (tokenizeTitle rt (title (entry_data p))) * 100"

definition daysSincePublished :: "int \<Rightarrow> CollectionEntry \<Rightarrow> real" where
  "daysSincePublished now p =
     real_of_int (now - published (entry_data p)) / (1000 * 60 * 60 * 24)"

text \<open>
  The callback of \<open>candidates.map\<close>, with \<open>currentTags\<close>, \<open>currentTokens\<close> and
  \<open>currentCategory\<close> of the enclosing function, in exact arithmetic; \<open>Math.LN2\<close> is
  \<open>ln 2\<close>.
\<close>

definition scorePost :: "runtime \<Rightarrow> int \<Rightarrow> CollectionEntry \<Rightarrow> CollectionEntry \<Rightarrow> real ScoredCandidate" where
  "scorePost rt now currentPost p =
     (let currentTags = newSet (orEmptyArray (tags (entry_data currentPost)));
          currentCategory = orEmptyString (category (entry_data currentPost));
          postTags = newSet (orEmptyArray (tags (entry_data p)));
          tagMatch = jaccardSimilarity currentTags postTags * 100;
          titleSimilarity = titleSimilarityScore rt currentPost p;
          timeFreshness = 30 * exp ((- ln 2 * daysSincePublished now p) / 180);
          postCategory = orEmptyString (category (entry_data p));
          bonus = (if currentCategory \<noteq> [] \<and> postCategory \<noteq> [] \<and> currentCategory = postCategory
                   then 10 else 0);
          total = tagMatch + titleSimilarity + timeFreshness + bonus
      in \<lparr> post = p, totalScore = total, tagMatchScore = tagMatch,
           timeFreshnessScore = timeFreshness, categoryBonus = bonus \<rparr>)"

section \<open>Selecting the related posts\<close>

text \<open>\<open>candidates\<close>: the corpus without the current post and without protected posts.\<close>

definition candidates :: "CollectionEntry list \<Rightarrow> CollectionEntry \<Rightarrow> CollectionEntry list" where
  "candidates allPosts currentPost =
     filter (\<lambda>p. entry_id p \<noteq> entry_id currentPost \<and> \<not> truthy (password (entry_data p))) allPosts"

text \<open>
  The statements from \<open>scored.sort\<close> to \<open>return result\<close>, as functions of the array
  \<open>scored\<close> that \<open>map\<close> has built, whatever numbers it holds.  \<open>scored.sort\<close> with
  the comparator \<open>b.totalScore - a.totalScore\<close>:
\<close>

definition sortByTotal :: "('n::linorder) ScoredCandidate list \<Rightarrow> 'n ScoredCandidate list" where
  "sortByTotal scored =
     array_sort (\<lambda>a b. signOfDifference (totalScore b) (totalScore a)) scored"

text \<open>The two \<open>filter\<close> calls on the sorted array.\<close>

definition withTagMatchOf :: "('n::{linorder,zero}) ScoredCandidate list \<Rightarrow> 'n ScoredCandidate list" where
  "withTagMatchOf sortedScored = filter (\<lambda>s. tagMatchScore s > 0) sortedScored"

definition withoutTagMatchOf :: "('n::{linorder,zero}) ScoredCandidate list \<Rightarrow> 'n ScoredCandidate list" where
  "withoutTagMatchOf sortedScored = filter (\<lambda>s. tagMatchScore s = 0) sortedScored"

text \<open>
  \<open>withoutTagMatch.sort\<close>, which only runs when it is needed.  \<open>fadd\<close> is the
  addition of the numbers: \<open>+\<close> in exact arithmetic, the rounding addition of doubles
  in the engine.
\<close>

definition sortForFill :: "('n \<Rightarrow> 'n \<Rightarrow> 'n) \<Rightarrow> ('n::linorder) ScoredCandidate list \<Rightarrow> 'n ScoredCandidate list" where
  "sortForFill fadd withoutTagMatch =
     array_sort (\<lambda>a b. signOfDifference (fadd (timeFreshnessScore b) (categoryBonus b))
                                         (fadd (timeFreshnessScore a) (categoryBonus a)))
                withoutTagMatch"

definition toPostForList :: "'n ScoredCandidate \<Rightarrow> PostForList" where
  "toPostForList s = \<lparr> item_id = entry_id (post s), item_data = entry_data (post s) \<rparr>"

text \<open>
  Either \<open>for (const s of ...)\<close> loop: leave at the first element met with
  \<open>result.length >= maxCount\<close>, push otherwise.
\<close>

fun pushUntilFull :: "int \<Rightarrow> PostForList list \<Rightarrow> 'n ScoredCandidate list \<Rightarrow> PostForList list" where
  "pushUntilFull maxCount result [] = result"
| "pushUntilFull maxCount result (s # ss) =
     (if int (length result) \<ge> maxCount then result
      else pushUntilFull maxCount (result @ [toPostForList s]) ss)"

definition selectFromScored ::
  "('n \<Rightarrow> 'n \<Rightarrow> 'n) \<Rightarrow> ('n::{linorder,zero}) ScoredCandidate list \<Rightarrow> int \<Rightarrow> PostForList list" where
  "selectFromScored fadd scored maxCount =
     (let sortedScored = sortByTotal scored;
          withTagMatch = withTagMatchOf sortedScored;
          withoutTagMatch = withoutTagMatchOf sortedScored;
          result = pushUntilFull maxCount [] withTagMatch
      in if int (length result) < maxCount
         then pushUntilFull maxCount result (sortForFill fadd withoutTagMatch)
         else result)"

text \<open>
  The body of \<open>getRelatedPosts\<close> after the \<open>await\<close>, for a callback \<open>score\<close> of
  \<open>candidates.map\<close> and an addition \<open>fadd\<close> in any arithmetic.
\<close>

definition selectRelatedWith ::
  "('n \<Rightarrow> 'n \<Rightarrow> 'n) \<Rightarrow> (CollectionEntry \<Rightarrow> ('n::{linorder,zero}) ScoredCandidate)
     \<Rightarrow> CollectionEntry list \<Rightarrow> CollectionEntry \<Rightarrow> int \<Rightarrow> PostForList list" where
  "selectRelatedWith fadd score allPosts currentPost maxCount =
     selectFromScored fadd (map score (candidates allPosts currentPost)) maxCount"

text \<open>
  The same with the exact scores of \<open>scorePost\<close>, as a function of the delivered posts
  and of the value of \<open>Date.now()\<close>: \<open>scored\<close> as \<open>map\<close> builds it,
  \<open>withTagMatch\<close>, and the result.  The order within this result is the order of the
  exact scores; only what does not depend on that order is derived from it.
\<close>

definition scored_mapped :: "runtime \<Rightarrow> int \<Rightarrow> CollectionEntry list \<Rightarrow> CollectionEntry \<Rightarrow> real ScoredCandidate list" where
  "scored_mapped rt now allPosts currentPost =
     map (scorePost rt now currentPost) (candidates allPosts currentPost)"

definition withTagMatch :: "runtime \<Rightarrow> int \<Rightarrow> CollectionEntry list \<Rightarrow> CollectionEntry \<Rightarrow> real ScoredCandidate list" where
  "withTagMatch rt now allPosts currentPost =
     withTagMatchOf (sortByTotal (scored_mapped rt now allPosts currentPost))"

definition selectRelated :: "runtime \<Rightarrow> int \<Rightarrow> CollectionEntry list \<Rightarrow> CollectionEntry \<Rightarrow> int \<Rightarrow> PostForList list" where
  "selectRelated rt now allPosts currentPost maxCount =
     selectRelatedWith (+) (scorePost rt now currentPost) allPosts currentPost maxCount"



text \<open>
  Data for the examples: a post built from its front matter, and a platform on which a
  title is one word-like segment and \<open>toLowerCase\<close> folds the letters A to Z.
\<close>

abbreviation (input) examplePost ::
  "string \<Rightarrow> string \<Rightarrow> string list option \<Rightarrow> string option \<Rightarrow> int \<Rightarrow> string option
     \<Rightarrow> CollectionEntry" where
  "examplePost i t tg c pub pw \<equiv>
     \<lparr> entry_id = i,
       entry_data = \<lparr> title = t, tags = tg, category = c, published = pub,
                      password = pw, draft = False \<rparr>,
       entry_body = [] \<rparr>"

definition asciiLower :: "char \<Rightarrow> char" where
  "asciiLower c =
     (case map_of (zip ''ABCDEFGHIJKLMNOPQRSTUVWXYZ'' ''abcdefghijklmnopqrstuvwxyz'') c of
        None \<Rightarrow> c
      | Some l \<Rightarrow> l)"

abbreviation (input) exampleRuntime :: runtime where
  "exampleRuntime \<equiv> \<lparr> segment = (\<lambda>s. [(s, True)]), toLowerCase = map asciiLower \<rparr>"

text \<open>
  The example corpus: the current post \<open>c\<close>, a post \<open>n1\<close> that shares its title but no
  tag, a protected copy \<open>s\<close>, a post \<open>t1\<close> that shares one tag, and a post \<open>n2\<close> that
  shares only the category.  All are published at time 0.
\<close>

abbreviation (input) exampleCurrent :: CollectionEntry where
  "exampleCurrent \<equiv>
     examplePost ''c'' ''Cache'' (Some [''go'', ''rust'']) (Some ''systems'') 0 None"

abbreviation (input) exampleCorpus :: "CollectionEntry list" where
  "exampleCorpus \<equiv>
     [exampleCurrent,
      examplePost ''n1'' ''cache'' (Some [''misc'']) None 0 None,
      examplePost ''s'' ''Cache'' (Some [''go'', ''rust'']) (Some ''systems'') 0 (Some ''pw''),
      examplePost ''t1'' ''Alpha'' (Some [''go'']) None 0 None,
      examplePost ''n2'' ''Beta'' None (Some ''systems'') 0 None]"

text \<open>
  Two scored arrays with the numbers written out.  In the first the totals differ in
  the last digit a double holds.  In the second the freshness of two old posts is
  small; \<open>absorbingAdd\<close> is an addition that, like a rounding one, loses a small first
  summand.
\<close>

abbreviation (input) exampleScored :: "string \<Rightarrow> real \<Rightarrow> real \<Rightarrow> real \<Rightarrow> real \<Rightarrow> real ScoredCandidate" where
  "exampleScored i tot tag fresh bonus \<equiv>
     \<lparr> post = examplePost i i None None 0 None, totalScore = tot, tagMatchScore = tag,
       timeFreshnessScore = fresh, categoryBonus = bonus \<rparr>"

definition absorbingAdd :: "real \<Rightarrow> real \<Rightarrow> real" where
  "absorbingAdd x y = (if \<bar>x\<bar> < 1 / 1000 then y else x + y)"

section \<open>Properties of the JavaScript values\<close>

lemma distinct_set_add: "distinct s \<Longrightarrow> distinct (set_add s x)"
  by (simp add: set_add_def)

lemma set_set_add: "set (set_add s x) = insert x (set s)"
  by (auto simp: set_add_def)

lemma fold_set_add:
  "distinct s \<Longrightarrow>
   distinct (fold (\<lambda>x s. set_add s x) xs s) \<and>
   set (fold (\<lambda>x s. set_add s x) xs s) = set s \<union> set xs"
  by (induction xs arbitrary: s) (auto simp: distinct_set_add set_set_add)

lemma distinct_newSet: "distinct (newSet xs)"
  using fold_set_add [of "[]" xs] by (simp add: newSet_def)

lemma set_newSet: "set (newSet xs) = set xs"
  using fold_set_add [of "[]" xs] by (simp add: newSet_def)

lemma fold_count_filter:
  "fold (\<lambda>item n. if P item then n + 1 else n) a (k::int) = k + int (length (filter P a))"
  by (induction a arbitrary: k) auto

lemma intersectionCount_card:
  assumes "distinct a"
  shows "intersectionCount a b = int (card (set a \<inter> set b))"
proof -
  have "intersectionCount a b = int (length (filter (\<lambda>x. x \<in> set b) a))"
    by (simp add: intersectionCount_def set_has_def fold_count_filter)
  also have "length (filter (\<lambda>x. x \<in> set b) a) = card (set (filter (\<lambda>x. x \<in> set b) a))"
    using assms by (metis distinct_card distinct_filter)
  also have "set (filter (\<lambda>x. x \<in> set b) a) = set a \<inter> set b"
    by auto
  finally show ?thesis .
qed

lemma unionSize_card:
  assumes "distinct a" "distinct b"
  shows "unionSize a b = int (card (set a \<union> set b))"
proof -
  have "card (set a \<union> set b) + card (set a \<inter> set b) = card (set a) + card (set b)"
    using card_Un_Int [of "set a" "set b"] by simp
  moreover have "card (set a) = length a" "card (set b) = length b"
    using assms by (simp_all add: distinct_card)
  ultimately show ?thesis
    using assms by (simp add: unionSize_def set_size_def intersectionCount_card)
qed

lemma jaccardSimilarity_card:
  assumes "distinct a" "distinct b"
  shows "jaccardSimilarity a b =
           (if set a \<union> set b = {} then 0
            else real (card (set a \<inter> set b)) / real (card (set a \<union> set b)))"
  using assms
  by (auto simp: jaccardSimilarity_def unionSize_card intersectionCount_card set_size_def)

lemma jaccardSimilarity_nonneg:
  assumes "distinct a" "distinct b"
  shows "0 \<le> jaccardSimilarity a b"
  by (simp add: jaccardSimilarity_card [OF assms])

lemma jaccardSimilarity_pos_iff:
  assumes "distinct a" "distinct b"
  shows "0 < jaccardSimilarity a b \<longleftrightarrow> set a \<inter> set b \<noteq> {}"
proof -
  have "0 < card (set a \<inter> set b) \<longleftrightarrow> set a \<inter> set b \<noteq> {}"
    by (simp add: card_gt_0_iff)
  moreover have "set a \<inter> set b \<noteq> {} \<Longrightarrow> 0 < card (set a \<union> set b)"
    by (auto simp: card_gt_0_iff)
  ultimately show ?thesis
    by (auto simp: jaccardSimilarity_card [OF assms] zero_less_divide_iff)
qed

section \<open>Properties of sorting and of the filling loop\<close>

lemma signOfDifference_le0: "signOfDifference x y \<le> 0 \<longleftrightarrow> x \<le> y"
  by (auto simp: signOfDifference_def)

lemma array_sort_Nil: "array_sort cmp [] = []"
  by (simp add: array_sort_def)

lemma array_sort_Cons: "array_sort cmp (x # xs) = insertBy cmp x (array_sort cmp xs)"
  by (simp add: array_sort_def)

lemma mset_insertBy: "mset (insertBy cmp x ys) = add_mset x (mset ys)"
  by (induction ys) auto

lemma mset_array_sort: "mset (array_sort cmp xs) = mset xs"
  by (induction xs) (simp_all add: array_sort_Nil array_sort_Cons mset_insertBy)

lemma set_array_sort: "set (array_sort cmp xs) = set xs"
  using mset_array_sort [of cmp xs] by (metis set_mset_mset)

lemma length_array_sort: "length (array_sort cmp xs) = length xs"
  using mset_array_sort [of cmp xs] by (metis size_mset)

lemma set_insertBy: "set (insertBy cmp x ys) = insert x (set ys)"
  using mset_insertBy [of cmp x ys] by (metis set_mset_add_mset_insert set_mset_mset)

lemma sorted_desc_insertBy:
  fixes f :: "'a \<Rightarrow> 'n::linorder"
  assumes "sorted_wrt (\<lambda>a b. f a \<ge> f b) ys"
  shows "sorted_wrt (\<lambda>a b. f a \<ge> f b)
           (insertBy (\<lambda>a b. signOfDifference (f b) (f a)) x ys)"
  using assms
proof (induction ys)
  case Nil
  show ?case by simp
next
  case (Cons y ys)
  show ?case
  proof (cases "f y \<le> f x")
    case True
    with Cons.prems show ?thesis
      by (auto simp: signOfDifference_le0)
  next
    case False
    then have "f x \<le> f y" by simp
    with False Cons show ?thesis
      by (auto simp: signOfDifference_le0 set_insertBy)
  qed
qed

lemma sorted_desc_array_sort:
  fixes f :: "'a \<Rightarrow> 'n::linorder"
  shows "sorted_wrt (\<lambda>a b. f a \<ge> f b) (array_sort (\<lambda>a b. signOfDifference (f b) (f a)) xs)"
  by (induction xs) (simp_all add: array_sort_Nil array_sort_Cons sorted_desc_insertBy)

lemma filter_insertBy:
  fixes f :: "'a \<Rightarrow> 'n::linorder"
  shows "filter (\<lambda>s. f s = k) (insertBy (\<lambda>a b. signOfDifference (f b) (f a)) x ys) =
           (if f x = k then x # filter (\<lambda>s. f s = k) ys else filter (\<lambda>s. f s = k) ys)"
  by (induction ys) (auto simp: signOfDifference_le0)

lemma array_sort_stable:
  fixes f :: "'a \<Rightarrow> 'n::linorder"
  shows "filter (\<lambda>s. f s = k) (array_sort (\<lambda>a b. signOfDifference (f b) (f a)) xs) =
           filter (\<lambda>s. f s = k) xs"
  by (induction xs) (simp_all add: array_sort_Nil array_sort_Cons filter_insertBy)

lemma stable_sorted_unique:
  fixes f :: "'a \<Rightarrow> 'n::linorder"
  assumes "sorted_wrt (\<lambda>a b. f a \<ge> f b) ys"
    and "sorted_wrt (\<lambda>a b. f a \<ge> f b) zs"
    and "\<And>k. filter (\<lambda>s. f s = k) ys = filter (\<lambda>s. f s = k) zs"
  shows "ys = zs"
  using assms
proof (induction ys arbitrary: zs)
  case Nil
  show ?case
  proof (cases zs)
    case Nil
    then show ?thesis by simp
  next
    case (Cons z zs')
    with Nil.prems(3) [of "f z"] show ?thesis by simp
  qed
next
  case (Cons y ys)
  from Cons.prems(3) [of "f y"] have ne: "filter (\<lambda>s. f s = f y) zs \<noteq> []"
    by auto
  then obtain z zs' where zs: "zs = z # zs'" by (cases zs) auto
  from ne obtain u where u: "u \<in> set zs" "f u = f y"
    by (metis (mono_tags, lifting) filter_False)
  with Cons.prems(2) zs have zy: "f y \<le> f z" by auto
  from Cons.prems(3) [of "f z"] zs have "filter (\<lambda>s. f s = f z) (y # ys) \<noteq> []"
    by auto
  then obtain v where v: "v \<in> set (y # ys)" "f v = f z"
    by (metis (mono_tags, lifting) filter_False)
  with Cons.prems(1) have "f z \<le> f y" by auto
  with zy have eq: "f z = f y" by simp
  from Cons.prems(3) [of "f y"] zs eq have yz: "y = z" by simp
  have tails: "filter (\<lambda>s. f s = k) ys = filter (\<lambda>s. f s = k) zs'" for k
    using Cons.prems(3) [of k] zs yz by (auto split: if_splits)
  from Cons.prems(1) have "sorted_wrt (\<lambda>a b. f a \<ge> f b) ys" by simp
  moreover from Cons.prems(2) zs have "sorted_wrt (\<lambda>a b. f a \<ge> f b) zs'" by simp
  ultimately have "ys = zs'" using tails by (rule Cons.IH)
  with zs yz show ?case by simp
qed

lemma array_sort_unique:
  fixes f :: "'a \<Rightarrow> 'n::linorder"
  assumes "sorted_wrt (\<lambda>a b. f a \<ge> f b) ys"
    and "\<And>k. filter (\<lambda>s. f s = k) ys = filter (\<lambda>s. f s = k) xs"
  shows "ys = array_sort (\<lambda>a b. signOfDifference (f b) (f a)) xs"
  using assms(1) sorted_desc_array_sort
proof (rule stable_sorted_unique)
  fix k
  show "filter (\<lambda>s. f s = k) ys =
        filter (\<lambda>s. f s = k) (array_sort (\<lambda>a b. signOfDifference (f b) (f a)) xs)"
    by (simp add: array_sort_stable assms(2))
qed

lemma pushUntilFull_take:
  "pushUntilFull m r ss = r @ map toPostForList (take (nat (m - int (length r))) ss)"
proof (induction ss arbitrary: r)
  case Nil
  show ?case by simp
next
  case (Cons s ss)
  show ?case
  proof (cases "int (length r) \<ge> m")
    case True
    then show ?thesis by simp
  next
    case False
    then have "nat (m - int (length r)) = Suc (nat (m - int (length (r @ [toPostForList s]))))"
      by simp
    with False Cons.IH [of "r @ [toPostForList s]"] show ?thesis
      by simp
  qed
qed

lemma selectFromScored_take:
  "selectFromScored fadd scored maxCount =
     map toPostForList
       (take (nat maxCount)
          (withTagMatchOf (sortByTotal scored) @
           sortForFill fadd (withoutTagMatchOf (sortByTotal scored))))"
proof -
  define W where "W = withTagMatchOf (sortByTotal scored)"
  define V where "V = sortForFill fadd (withoutTagMatchOf (sortByTotal scored))"
  define r where "r = map toPostForList (take (nat maxCount) W)"
  have r: "pushUntilFull maxCount [] W = r"
    by (simp add: pushUntilFull_take r_def)
  have sel: "selectFromScored fadd scored maxCount =
               (if int (length r) < maxCount then pushUntilFull maxCount r V else r)"
    by (simp add: selectFromScored_def Let_def W_def [symmetric] V_def [symmetric] r)
  have "selectFromScored fadd scored maxCount = map toPostForList (take (nat maxCount) (W @ V))"
  proof (cases "int (length r) < maxCount")
    case True
    then have short: "length W < nat maxCount" by (auto simp: r_def)
    then have "nat (maxCount - int (length r)) = nat maxCount - length W"
      by (simp add: r_def)
    with True short show ?thesis
      by (simp add: sel pushUntilFull_take r_def)
  next
    case False
    then have "nat maxCount - length W = 0" by (auto simp: r_def)
    with False show ?thesis
      by (simp add: sel r_def)
  qed
  then show ?thesis by (simp only: W_def V_def)
qed

lemma mset_sortByTotal: "mset (sortByTotal scored) = mset scored"
  by (simp add: sortByTotal_def mset_array_sort)

lemma mset_sortForFill: "mset (sortForFill fadd xs) = mset xs"
  by (simp add: sortForFill_def mset_array_sort)

lemma set_tiers_subset:
  "set (withTagMatchOf (sortByTotal scored) @
        sortForFill fadd (withoutTagMatchOf (sortByTotal scored))) \<subseteq> set scored"
proof -
  have "set (sortByTotal scored) = set scored"
    using mset_sortByTotal [of scored] by (metis set_mset_mset)
  moreover have "set (sortForFill fadd (withoutTagMatchOf (sortByTotal scored)))
                   = set (withoutTagMatchOf (sortByTotal scored))"
    using mset_sortForFill [of fadd "withoutTagMatchOf (sortByTotal scored)"]
    by (metis set_mset_mset)
  ultimately show ?thesis
    by (auto simp: withTagMatchOf_def withoutTagMatchOf_def)
qed

lemma mset_tiers:
  fixes scored :: "('n::{linorder,zero}) ScoredCandidate list"
  assumes "\<forall>s \<in> set scored. 0 \<le> tagMatchScore s"
  shows "mset (withTagMatchOf (sortByTotal scored) @
               sortForFill fadd (withoutTagMatchOf (sortByTotal scored))) = mset scored"
proof -
  have "withoutTagMatchOf (sortByTotal scored) =
          filter (\<lambda>s. \<not> tagMatchScore s > 0) (sortByTotal scored)"
    unfolding withoutTagMatchOf_def
  proof (rule filter_cong [OF refl])
    fix s assume "s \<in> set (sortByTotal scored)"
    then have "s \<in> set scored"
      using mset_sortByTotal [of scored] by (metis set_mset_mset)
    with assms have "0 \<le> tagMatchScore s" by blast
    then show "(tagMatchScore s = 0) = (\<not> tagMatchScore s > 0)" by auto
  qed
  then show ?thesis
    by (simp add: mset_sortForFill withTagMatchOf_def mset_sortByTotal)
qed

section \<open>Properties of the scorer\<close>

lemma post_scorePost: "post (scorePost rt now cur p) = p"
  by (simp add: scorePost_def Let_def)

lemma tagMatchScore_scorePost:
  "tagMatchScore (scorePost rt now cur p) =
     jaccardSimilarity (newSet (orEmptyArray (tags (entry_data cur))))
                       (newSet (orEmptyArray (tags (entry_data p)))) * 100"
  by (simp add: scorePost_def Let_def)

lemma timeFreshnessScore_scorePost:
  "timeFreshnessScore (scorePost rt now cur p) =
     30 * exp ((- ln 2 * daysSincePublished now p) / 180)"
  by (simp add: scorePost_def Let_def)

lemma categoryBonus_scorePost:
  "categoryBonus (scorePost rt now cur p) =
     (if orEmptyString (category (entry_data cur)) \<noteq> [] \<and>
         orEmptyString (category (entry_data p)) \<noteq> [] \<and>
         orEmptyString (category (entry_data cur)) = orEmptyString (category (entry_data p))
      then 10 else 0)"
  by (simp add: scorePost_def Let_def)

lemma totalScore_scorePost:
  "totalScore (scorePost rt now cur p) =
     tagMatchScore (scorePost rt now cur p) + titleSimilarityScore rt cur p +
     timeFreshnessScore (scorePost rt now cur p) + categoryBonus (scorePost rt now cur p)"
  by (simp add: scorePost_def Let_def)

lemma tagMatchScore_nonneg: "0 \<le> tagMatchScore (scorePost rt now cur p)"
  by (simp add: tagMatchScore_scorePost jaccardSimilarity_nonneg distinct_newSet)

lemma tagMatchScore_pos_iff:
  "0 < tagMatchScore (scorePost rt now cur p) \<longleftrightarrow>
     set (orEmptyArray (tags (entry_data cur))) \<inter> set (orEmptyArray (tags (entry_data p))) \<noteq> {}"
  using jaccardSimilarity_pos_iff [OF distinct_newSet distinct_newSet, of "orEmptyArray (tags (entry_data cur))" "orEmptyArray (tags (entry_data p))"]
  by (simp add: tagMatchScore_scorePost set_newSet zero_less_mult_iff)

lemma set_tokenize_fold:
  "set (fold (\<lambda>(seg, isWordLike) tokens.
             if \<not> isWordLike then tokens else set_add tokens (f seg)) xs acc)
   = set acc \<union> f ` {seg. (seg, True) \<in> set xs}"
proof (induction xs arbitrary: acc)
  case Nil
  show ?case by simp
next
  case (Cons x xs)
  obtain seg w where x: "x = (seg, w)" by (cases x)
  show ?case
  proof (cases w)
    case True
    have "{s. (s, True) \<in> set (x # xs)} = insert seg {s. (s, True) \<in> set xs}"
      using x True by auto
    then show ?thesis
      using x True by (simp add: Cons.IH set_set_add)
  next
    case False
    have "{s. (s, True) \<in> set (x # xs)} = {s. (s, True) \<in> set xs}"
      using x False by auto
    then show ?thesis
      using x False by (simp add: Cons.IH)
  qed
qed

lemma set_tokenizeTitle:
  "set (tokenizeTitle rt t) = toLowerCase rt ` {seg. (seg, True) \<in> set (segment rt t)}"
  by (simp add: tokenizeTitle_def set_tokenize_fold)

lemma distinct_tokenize_fold:
  "distinct acc \<Longrightarrow> distinct (fold (\<lambda>(seg, isWordLike) tokens.
             if \<not> isWordLike then tokens else set_add tokens (f seg)) xs acc)"
  by (induction xs arbitrary: acc) (auto simp: distinct_set_add)

lemma distinct_tokenizeTitle: "distinct (tokenizeTitle rt t)"
  by (simp add: tokenizeTitle_def distinct_tokenize_fold)

section \<open>Properties of the selection\<close>



lemma scored_mapped_nonneg:
  "s \<in> set (scored_mapped rt now allPosts cur) \<Longrightarrow> 0 \<le> tagMatchScore s"
  by (auto simp: scored_mapped_def tagMatchScore_nonneg)

lemma toPostForList_scorePost:
  "toPostForList (scorePost rt now cur p) = \<lparr> item_id = entry_id p, item_data = entry_data p \<rparr>"
  by (simp add: toPostForList_def post_scorePost)

lemma selectRelated_as_take:
  "\<exists>T. selectRelated rt now allPosts cur maxCount = map toPostForList (take (nat maxCount) T) \<and>
       mset T = mset (scored_mapped rt now allPosts cur)"
proof -
  define T where "T = withTagMatchOf (sortByTotal (scored_mapped rt now allPosts cur)) @
                      sortForFill (+) (withoutTagMatchOf (sortByTotal (scored_mapped rt now allPosts cur)))"
  have "selectRelated rt now allPosts cur maxCount = map toPostForList (take (nat maxCount) T)"
    unfolding T_def
    by (simp only: selectRelated_def selectRelatedWith_def selectFromScored_take scored_mapped_def)
  moreover have "mset T = mset (scored_mapped rt now allPosts cur)"
    unfolding T_def
    by (rule mset_tiers) (simp add: scored_mapped_nonneg)
  ultimately show ?thesis by blast
qed

lemma selectRelated_subset:
  "set (selectRelated rt now allPosts cur maxCount)
     \<subseteq> (\<lambda>p. \<lparr> item_id = entry_id p, item_data = entry_data p \<rparr>) ` set (candidates allPosts cur)"
proof -
  obtain T where out: "selectRelated rt now allPosts cur maxCount = map toPostForList (take (nat maxCount) T)"
    and mT: "mset T = mset (scored_mapped rt now allPosts cur)"
    using selectRelated_as_take by blast
  have "set (take (nat maxCount) T) \<subseteq> set T"
    by (rule set_take_subset)
  also have "set T = set (scored_mapped rt now allPosts cur)"
    using mT by (metis set_mset_mset)
  finally have "set (take (nat maxCount) T) \<subseteq> scorePost rt now cur ` set (candidates allPosts cur)"
    by (simp add: scored_mapped_def)
  then have "toPostForList ` set (take (nat maxCount) T)
               \<subseteq> toPostForList ` scorePost rt now cur ` set (candidates allPosts cur)"
    by (rule image_mono)
  then show ?thesis
    by (simp add: out image_image toPostForList_scorePost)
qed

text \<open>Evaluation of the example corpus.\<close>

lemmas eval_defs =
  selectRelated_def selectRelatedWith_def selectFromScored_def withTagMatch_def
  withTagMatchOf_def withoutTagMatchOf_def sortByTotal_def sortForFill_def
  signOfDifference_def scored_mapped_def candidates_def scorePost_def Let_def
  titleSimilarityScore_def tokenizeTitle_def set_add_def jaccardSimilarity_def set_size_def
  unionSize_def intersectionCount_def set_has_def newSet_def orEmptyArray_def
  orEmptyString_def daysSincePublished_def asciiLower_def truthy_def array_sort_def
  toPostForList_def

lemma example_selectRelated:
  "selectRelated exampleRuntime 0 exampleCorpus exampleCurrent 3
   = map (\<lambda>p. \<lparr> item_id = entry_id p, item_data = entry_data p \<rparr>)
     [examplePost ''t1'' ''Alpha'' (Some [''go'']) None 0 None,
      examplePost ''n2'' ''Beta'' None (Some ''systems'') 0 None,
      examplePost ''n1'' ''cache'' (Some [''misc'']) None 0 None]"
  by (simp add: eval_defs)

lemma example_selectRelated_one:
  "selectRelated exampleRuntime 0 exampleCorpus exampleCurrent 1
   = [\<lparr> item_id = ''t1'',
        item_data = entry_data (examplePost ''t1'' ''Alpha'' (Some [''go'']) None 0 None) \<rparr>]"
  by (simp add: eval_defs)

lemma example_totals:
  "totalScore (scorePost exampleRuntime 0 exampleCurrent
      (examplePost ''n1'' ''cache'' (Some [''misc'']) None 0 None)) = 130"
  "totalScore (scorePost exampleRuntime 0 exampleCurrent
      (examplePost ''t1'' ''Alpha'' (Some [''go'']) None 0 None)) = 80"
  "totalScore (scorePost exampleRuntime 0 exampleCurrent
      (examplePost ''n2'' ''Beta'' None (Some ''systems'') 0 None)) = 40"
  by (simp_all add: eval_defs)

lemma example_withTagMatch:
  "withTagMatch exampleRuntime 0 exampleCorpus exampleCurrent =
     [scorePost exampleRuntime 0 exampleCurrent
        (examplePost ''t1'' ''Alpha'' (Some [''go'']) None 0 None)]"
  by (simp add: eval_defs)

lemma example_doubles:
  "selectFromScored (+)
     [exampleScored ''A'' (11333333333333333 / 100000000000000) (100 / 3) 30 0,
      exampleScored ''B'' (5666666666666667 / 50000000000000) (100 / 3) 30 0] 1
   = [toPostForList (exampleScored ''B'' (5666666666666667 / 50000000000000) (100 / 3) 30 0)]"
  by (simp add: eval_defs)

lemma example_absorbed:
  "selectFromScored absorbingAdd
     [exampleScored ''old1'' 10 0 (1 / 4000) 10,
      exampleScored ''old2'' 10 0 (1 / 2000) 10] 1
   = [toPostForList (exampleScored ''old1'' 10 0 (1 / 4000) 10)]"
  by (simp add: eval_defs absorbingAdd_def)

lemma example_with:
  "selectRelatedWith (+) (scorePost exampleRuntime 0 exampleCurrent) exampleCorpus exampleCurrent 3
     = selectRelated exampleRuntime 0 exampleCorpus exampleCurrent 3"
  by (simp only: selectRelated_def)

lemma filter_swap: "filter P (filter Q xs) = filter Q (filter P xs)"
  by (induction xs) auto

section \<open>Jaccard similarity is the quotient of the cardinalities\<close>

text \<open>
  C8.  For all sets \<open>A\<close> and \<open>B\<close> (duplicate-free member lists \<open>a\<close> and \<open>b\<close>),
  \<open>jaccardSimilarity\<close> is \<open>|A \<inter> B| / |A \<union> B|\<close> when the union is not empty and exactly
  \<open>0\<close> when both sets are empty.  The loop counts the intersection, \<open>union\<close> is the
  cardinality of the union, and the division is only reached with a positive divisor:
  once the first guard has failed, \<open>union === 0\<close> cannot hold, so no division by zero
  (no \<open>NaN\<close>) arises.
\<close>

theorem jaccardSimilarity_correct:
  assumes "distinct a" and "distinct b"
  shows "intersectionCount a b = int (card (set a \<inter> set b)) \<and>
         unionSize a b = int (card (set a \<union> set b)) \<and>
         (a = [] \<and> b = [] \<longrightarrow> jaccardSimilarity a b = 0) \<and>
         (set a \<union> set b = {} \<longrightarrow> jaccardSimilarity a b = 0) \<and>
         (set a \<union> set b \<noteq> {} \<longrightarrow>
            0 < unionSize a b \<and>
            jaccardSimilarity a b =
              real (card (set a \<inter> set b)) / real (card (set a \<union> set b))) \<and>
         (\<not> (set_size a = 0 \<and> set_size b = 0) \<longrightarrow> unionSize a b \<noteq> 0)"
proof -
  have i: "intersectionCount a b = int (card (set a \<inter> set b))"
    by (rule intersectionCount_card [OF assms(1)])
  have u: "unionSize a b = int (card (set a \<union> set b))"
    by (rule unionSize_card [OF assms])
  have e: "set a \<union> set b = {} \<longrightarrow> jaccardSimilarity a b = 0"
    by (simp add: jaccardSimilarity_def set_size_def)
  have q: "set a \<union> set b \<noteq> {} \<longrightarrow>
           0 < unionSize a b \<and>
           jaccardSimilarity a b = real (card (set a \<inter> set b)) / real (card (set a \<union> set b))"
    using jaccardSimilarity_card [OF assms] by (auto simp: u card_gt_0_iff)
  have z: "\<not> (set_size a = 0 \<and> set_size b = 0) \<longrightarrow> unionSize a b \<noteq> 0"
    by (auto simp: u set_size_def)
  from i u e q z show ?thesis by simp
qed

theorem jaccardSimilarity_correct_witness:
  "distinct [''go'', ''rust''] \<and> distinct [''go''] \<and>
   jaccardSimilarity [''go'', ''rust''] [''go''] = 1 / 2 \<and>
   jaccardSimilarity ([] :: string list) [] = 0"
proof -
  have d: "distinct [''go'', ''rust'']" "distinct [''go'']" by simp_all
  have i: "set [''go'', ''rust''] \<inter> set [''go''] = {''go''}" by auto
  have u: "set [''go'', ''rust''] \<union> set [''go''] = {''go'', ''rust''}" by auto
  have "jaccardSimilarity [''go'', ''rust''] [''go''] = 1 / 2"
    using jaccardSimilarity_correct [OF d] by (simp add: i u)
  moreover have "jaccardSimilarity ([] :: string list) [] = 0"
    using jaccardSimilarity_correct [of "[] :: string list" "[]"] by simp
  ultimately show ?thesis using d by simp
qed

section \<open>Time freshness\<close>

text \<open>
  C6.  For every candidate and every \<open>now\<close>, the time freshness score is
  \<open>30 \<times> exp(\<minus>ln 2 \<times> daysSincePublished / 180)\<close> with \<open>daysSincePublished\<close> the
  milliseconds from the publish time to \<open>now\<close> divided by 86400000.  Nothing clamps it:
  for a post published after \<open>now\<close> the days are negative and the score is strictly
  above 30.  (Scores are real numbers here, so the computation is total.)
\<close>

theorem timeFreshnessScore_unclamped:
  "timeFreshnessScore (scorePost rt now cur p) =
     30 * exp (- ln 2 * daysSincePublished now p / 180) \<and>
   daysSincePublished now p = real_of_int (now - published (entry_data p)) / 86400000 \<and>
   (daysSincePublished now p < 0 \<longleftrightarrow> now < published (entry_data p)) \<and>
   (daysSincePublished now p < 0 \<longrightarrow> 30 < timeFreshnessScore (scorePost rt now cur p))"
proof -
  let ?d = "daysSincePublished now p"
  have d: "?d = real_of_int (now - published (entry_data p)) / 86400000"
    by (simp add: daysSincePublished_def)
  have neg: "?d < 0 \<longleftrightarrow> now < published (entry_data p)"
    by (simp add: d divide_less_0_iff)
  have "30 < 30 * exp (- ln 2 * ?d / 180)" if "?d < 0"
  proof -
    have "0 < ln (2::real)" by simp
    with that have "0 < - ln 2 * ?d / 180"
      by (simp add: mult_pos_neg)
    then have "1 < exp (- ln 2 * ?d / 180)"
      by simp
    then show ?thesis by simp
  qed
  with d neg show ?thesis
    by (simp add: timeFreshnessScore_scorePost)
qed

theorem timeFreshnessScore_unclamped_witness:
  "daysSincePublished 0 (examplePost ''x'' ''t'' None None 864000000 None) = - 10 \<and>
   30 < timeFreshnessScore
          (scorePost exampleRuntime 0 (examplePost ''c'' ''t'' None None 0 None)
             (examplePost ''x'' ''t'' None None 864000000 None))"
  using timeFreshnessScore_unclamped
    [of exampleRuntime 0 "examplePost ''c'' ''t'' None None 0 None"
        "examplePost ''x'' ''t'' None None 864000000 None"]
  by simp

section \<open>Category bonus\<close>

text \<open>
  C7.  The category bonus is 10 exactly when both posts carry the same non-empty
  category string (compared as it is, case included) and 0 in every other case; a post
  whose category is missing or empty never earns it, whatever the other post has.
\<close>

theorem categoryBonus_exact:
  "categoryBonus (scorePost rt now cur p) =
     (if \<exists>c. c \<noteq> [] \<and> category (entry_data cur) = Some c \<and> category (entry_data p) = Some c
      then 10 else 0) \<and>
   (\<not> truthy (category (entry_data cur)) \<or> \<not> truthy (category (entry_data p)) \<longrightarrow>
      categoryBonus (scorePost rt now cur p) = 0)"
  by (auto simp: categoryBonus_scorePost orEmptyString_def truthy_def split: option.splits)

theorem categoryBonus_exact_witness:
  "categoryBonus (scorePost exampleRuntime 0
      (examplePost ''c'' ''t'' None (Some ''systems'') 0 None)
      (examplePost ''x'' ''u'' None (Some ''systems'') 0 None)) = 10 \<and>
   categoryBonus (scorePost exampleRuntime 0
      (examplePost ''c'' ''t'' None (Some ''systems'') 0 None)
      (examplePost ''x'' ''u'' None (Some ''Systems'') 0 None)) = 0 \<and>
   categoryBonus (scorePost exampleRuntime 0
      (examplePost ''c'' ''t'' None None 0 None)
      (examplePost ''x'' ''u'' None None 0 None)) = 0 \<and>
   categoryBonus (scorePost exampleRuntime 0
      (examplePost ''c'' ''t'' None (Some []) 0 None)
      (examplePost ''x'' ''u'' None (Some []) 0 None)) = 0"
  using
    categoryBonus_exact [of exampleRuntime 0
      "examplePost ''c'' ''t'' None (Some ''systems'') 0 None"
      "examplePost ''x'' ''u'' None (Some ''systems'') 0 None"]
    categoryBonus_exact [of exampleRuntime 0
      "examplePost ''c'' ''t'' None (Some ''systems'') 0 None"
      "examplePost ''x'' ''u'' None (Some ''Systems'') 0 None"]
    categoryBonus_exact [of exampleRuntime 0
      "examplePost ''c'' ''t'' None None 0 None"
      "examplePost ''x'' ''u'' None None 0 None"]
    categoryBonus_exact [of exampleRuntime 0
      "examplePost ''c'' ''t'' None (Some []) 0 None"
      "examplePost ''x'' ''u'' None (Some []) 0 None"]
  by (simp add: truthy_def)

section \<open>What a scored candidate holds\<close>

text \<open>
  C5 (as amended).  The object built for a candidate holds the post, the total score
  and three of the four sub-scores: tag match, time freshness and category bonus.  The
  title similarity score is not a field of it; it only enters the total, which is the
  sum of the four sub-scores.
\<close>

theorem scorePost_retains:
  "scorePost rt now cur p =
     \<lparr> post = p,
       totalScore = tagMatchScore (scorePost rt now cur p) + titleSimilarityScore rt cur p
                    + timeFreshnessScore (scorePost rt now cur p)
                    + categoryBonus (scorePost rt now cur p),
       tagMatchScore = jaccardSimilarity (newSet (orEmptyArray (tags (entry_data cur))))
                         (newSet (orEmptyArray (tags (entry_data p)))) * 100,
       timeFreshnessScore = 30 * exp (- ln 2 * daysSincePublished now p / 180),
       categoryBonus = (if orEmptyString (category (entry_data cur)) \<noteq> [] \<and>
                           orEmptyString (category (entry_data cur))
                             = orEmptyString (category (entry_data p))
                        then 10 else 0) \<rparr>"
  by (simp add: scorePost_def Let_def)

theorem scorePost_four_subscores_counterexample:
  "titleSimilarityScore exampleRuntime
      (examplePost ''c'' ''Cache'' None None 0 None)
      (examplePost ''x'' ''cache'' None None 0 None) = 100 \<and>
   (100::real) \<notin>
     {totalScore (scorePost exampleRuntime 0
        (examplePost ''c'' ''Cache'' None None 0 None)
        (examplePost ''x'' ''cache'' None None 0 None)),
      tagMatchScore (scorePost exampleRuntime 0
        (examplePost ''c'' ''Cache'' None None 0 None)
        (examplePost ''x'' ''cache'' None None 0 None)),
      timeFreshnessScore (scorePost exampleRuntime 0
        (examplePost ''c'' ''Cache'' None None 0 None)
        (examplePost ''x'' ''cache'' None None 0 None)),
      categoryBonus (scorePost exampleRuntime 0
        (examplePost ''c'' ''Cache'' None None 0 None)
        (examplePost ''x'' ''cache'' None None 0 None))}"
  by (simp add: scorePost_def Let_def titleSimilarityScore_def tokenizeTitle_def set_add_def
        jaccardSimilarity_def set_size_def unionSize_def intersectionCount_def set_has_def
        newSet_def orEmptyArray_def orEmptyString_def daysSincePublished_def asciiLower_def)

section \<open>Tags are compared as they are\<close>

text \<open>
  C10.  The tag match score is positive exactly when the two posts have a tag in common
  as strings; no normalisation is applied.  So when every pair of tags that agree after
  case folding differ as strings, the tag match score is 0 in both directions and
  neither post is tag-matched for the other.  Titles, in contrast, are folded: the token
  set is the image of the word-like segments under \<open>toLowerCase\<close>.
\<close>

theorem tagMatch_case_sensitive:
  "(0 < tagMatchScore (scorePost rt now a b) \<longleftrightarrow>
      (\<exists>t. t \<in> set (orEmptyArray (tags (entry_data a))) \<and>
           t \<in> set (orEmptyArray (tags (entry_data b))))) \<and>
   ((\<forall>t \<in> set (orEmptyArray (tags (entry_data a))).
     \<forall>u \<in> set (orEmptyArray (tags (entry_data b))).
       toLowerCase rt t = toLowerCase rt u \<longrightarrow> t \<noteq> u) \<longrightarrow>
      tagMatchScore (scorePost rt now a b) = 0 \<and>
      tagMatchScore (scorePost rt now b a) = 0 \<and>
      scorePost rt now a b \<notin> set (withTagMatch rt now allPosts a) \<and>
      scorePost rt now b a \<notin> set (withTagMatch rt now allPosts b)) \<and>
   set (tokenizeTitle rt (title (entry_data a)))
     = toLowerCase rt ` {seg. (seg, True) \<in> set (segment rt (title (entry_data a)))}"
proof -
  let ?A = "set (orEmptyArray (tags (entry_data a)))"
  let ?B = "set (orEmptyArray (tags (entry_data b)))"
  have pos: "0 < tagMatchScore (scorePost rt now a b) \<longleftrightarrow> (\<exists>t. t \<in> ?A \<and> t \<in> ?B)"
    using tagMatchScore_pos_iff [of rt now a b] by blast
  have zero: "tagMatchScore (scorePost rt now a b) = 0 \<and>
      tagMatchScore (scorePost rt now b a) = 0 \<and>
      scorePost rt now a b \<notin> set (withTagMatch rt now allPosts a) \<and>
      scorePost rt now b a \<notin> set (withTagMatch rt now allPosts b)"
    if h: "\<forall>t \<in> ?A. \<forall>u \<in> ?B. toLowerCase rt t = toLowerCase rt u \<longrightarrow> t \<noteq> u"
  proof -
    from h have disj: "?A \<inter> ?B = {}" by blast
    then have disj': "?B \<inter> ?A = {}" by blast
    have ab: "tagMatchScore (scorePost rt now a b) = 0"
      using tagMatchScore_pos_iff [of rt now a b] tagMatchScore_nonneg [of rt now a b] disj
      by simp
    have ba: "tagMatchScore (scorePost rt now b a) = 0"
      using tagMatchScore_pos_iff [of rt now b a] tagMatchScore_nonneg [of rt now b a] disj'
      by simp
    from ab have "scorePost rt now a b \<notin> set (withTagMatch rt now allPosts a)"
      by (auto simp: withTagMatch_def withTagMatchOf_def)
    moreover from ba have "scorePost rt now b a \<notin> set (withTagMatch rt now allPosts b)"
      by (auto simp: withTagMatch_def withTagMatchOf_def)
    ultimately show ?thesis using ab ba by simp
  qed
  from pos zero show ?thesis
    by (simp add: set_tokenizeTitle)
qed

theorem tagMatch_case_sensitive_witness:
  "toLowerCase exampleRuntime ''Go'' = toLowerCase exampleRuntime ''go'' \<and> ''Go'' \<noteq> ''go'' \<and>
   tagMatchScore (scorePost exampleRuntime 0
      (examplePost ''c'' ''Go'' (Some [''Go'']) None 0 None)
      (examplePost ''x'' ''go'' (Some [''go'']) None 0 None)) = 0 \<and>
   tagMatchScore (scorePost exampleRuntime 0
      (examplePost ''x'' ''go'' (Some [''go'']) None 0 None)
      (examplePost ''c'' ''Go'' (Some [''Go'']) None 0 None)) = 0 \<and>
   titleSimilarityScore exampleRuntime
      (examplePost ''c'' ''Go'' (Some [''Go'']) None 0 None)
      (examplePost ''x'' ''go'' (Some [''go'']) None 0 None) = 100"
proof -
  have l: "toLowerCase exampleRuntime ''Go'' = toLowerCase exampleRuntime ''go''"
    and n: "''Go'' \<noteq> ''go''"
    by (simp_all add: asciiLower_def)
  have h: "\<forall>t \<in> set (orEmptyArray (tags (entry_data (examplePost ''c'' ''Go'' (Some [''Go'']) None 0 None)))).
    \<forall>u \<in> set (orEmptyArray (tags (entry_data (examplePost ''x'' ''go'' (Some [''go'']) None 0 None)))).
      toLowerCase exampleRuntime t = toLowerCase exampleRuntime u \<longrightarrow> t \<noteq> u"
    by (simp add: orEmptyArray_def)
  have t: "titleSimilarityScore exampleRuntime
      (examplePost ''c'' ''Go'' (Some [''Go'']) None 0 None)
      (examplePost ''x'' ''go'' (Some [''go'']) None 0 None) = 100"
    by (simp add: titleSimilarityScore_def tokenizeTitle_def set_add_def
        jaccardSimilarity_def set_size_def unionSize_def intersectionCount_def set_has_def
        asciiLower_def)
  from tagMatch_case_sensitive
         [of exampleRuntime 0 "examplePost ''c'' ''Go'' (Some [''Go'']) None 0 None"
             "examplePost ''x'' ''go'' (Some [''go'']) None 0 None" "[]"] h l n t
  show ?thesis
    by blast
qed

section \<open>Exclusion of the current post and of protected posts\<close>

text \<open>
  C1.  The result never contains the id of the current post, nor a protected post (one
  with a truthy \<open>password\<close>); with ids unique in the corpus it contains the id of no
  protected post.  Both exclusions happen before scoring: the scored list is built from
  the filtered candidates only.
\<close>

theorem selectRelated_excludes:
  "(\<forall>r \<in> set (selectRelated rt now allPosts cur maxCount).
      item_id r \<noteq> entry_id cur \<and> \<not> truthy (password (item_data r)) \<and>
      (\<exists>p \<in> set allPosts. item_id r = entry_id p \<and> item_data r = entry_data p)) \<and>
   (distinct (map entry_id allPosts) \<longrightarrow>
      (\<forall>p \<in> set allPosts. truthy (password (entry_data p)) \<longrightarrow>
         entry_id p \<notin> item_id ` set (selectRelated rt now allPosts cur maxCount))) \<and>
   map post (scored_mapped rt now allPosts cur) =
     filter (\<lambda>p. entry_id p \<noteq> entry_id cur \<and> \<not> truthy (password (entry_data p))) allPosts \<and>
   (\<forall>s \<in> set (scored_mapped rt now allPosts cur).
      entry_id (post s) \<noteq> entry_id cur \<and> \<not> truthy (password (entry_data (post s))))"
proof -
  let ?out = "selectRelated rt now allPosts cur maxCount"
  have src: "\<exists>p \<in> set allPosts. entry_id p \<noteq> entry_id cur \<and> \<not> truthy (password (entry_data p))
               \<and> item_id r = entry_id p \<and> item_data r = entry_data p"
    if "r \<in> set ?out" for r
  proof -
    from that selectRelated_subset [of rt now allPosts cur maxCount]
    have "r \<in> (\<lambda>p. \<lparr> item_id = entry_id p, item_data = entry_data p \<rparr>) ` set (candidates allPosts cur)"
      by blast
    then obtain p where "p \<in> set (candidates allPosts cur)"
      "r = \<lparr> item_id = entry_id p, item_data = entry_data p \<rparr>" by blast
    then show ?thesis
      by (auto simp: candidates_def)
  qed
  have a: "\<forall>r \<in> set ?out.
      item_id r \<noteq> entry_id cur \<and> \<not> truthy (password (item_data r)) \<and>
      (\<exists>p \<in> set allPosts. item_id r = entry_id p \<and> item_data r = entry_data p)"
    using src by fastforce
  have b: "entry_id p \<notin> item_id ` set ?out"
    if d: "distinct (map entry_id allPosts)" and p: "p \<in> set allPosts"
      and pw: "truthy (password (entry_data p))" for p
  proof
    assume "entry_id p \<in> item_id ` set ?out"
    then obtain r where r: "r \<in> set ?out" "item_id r = entry_id p" by auto
    from src [OF r(1)] obtain q where q: "q \<in> set allPosts"
      "\<not> truthy (password (entry_data q))" "item_id r = entry_id q" by blast
    from d have "inj_on entry_id (set allPosts)" by (simp add: distinct_map)
    with p q r(2) have "p = q" by (auto dest: inj_onD)
    with pw q(2) show False by simp
  qed
  have c: "map post (scored_mapped rt now allPosts cur) =
     filter (\<lambda>p. entry_id p \<noteq> entry_id cur \<and> \<not> truthy (password (entry_data p))) allPosts"
    by (simp add: scored_mapped_def candidates_def comp_def post_scorePost)
  have e: "\<forall>s \<in> set (scored_mapped rt now allPosts cur).
      entry_id (post s) \<noteq> entry_id cur \<and> \<not> truthy (password (entry_data (post s)))"
    by (auto simp: scored_mapped_def candidates_def post_scorePost)
  from a b c e show ?thesis by blast
qed

theorem selectRelated_excludes_witness:
  "distinct (map entry_id exampleCorpus) \<and>
   truthy (password (entry_data
     (examplePost ''s'' ''Cache'' (Some [''go'', ''rust'']) (Some ''systems'') 0 (Some ''pw'')))) \<and>
   map item_id (selectRelated exampleRuntime 0 exampleCorpus exampleCurrent 3)
     = [''t1'', ''n2'', ''n1''] \<and>
   ''s'' \<notin> item_id ` set (selectRelated exampleRuntime 0 exampleCorpus exampleCurrent 3) \<and>
   ''c'' \<notin> item_id ` set (selectRelated exampleRuntime 0 exampleCorpus exampleCurrent 3)"
proof -
  have d: "distinct (map entry_id exampleCorpus)" by simp
  have pw: "truthy (password (entry_data
     (examplePost ''s'' ''Cache'' (Some [''go'', ''rust'']) (Some ''systems'') 0 (Some ''pw''))))"
    by (simp add: truthy_def)
  note inst = selectRelated_excludes [of exampleRuntime 0 exampleCorpus exampleCurrent 3]
  from inst d pw
  have s: "''s'' \<notin> item_id ` set (selectRelated exampleRuntime 0 exampleCorpus exampleCurrent 3)"
    by fastforce
  from inst
  have c: "''c'' \<notin> item_id ` set (selectRelated exampleRuntime 0 exampleCorpus exampleCurrent 3)"
    by fastforce
  have "map item_id (selectRelated exampleRuntime 0 exampleCorpus exampleCurrent 3)
          = [''t1'', ''n2'', ''n1'']"
    by (simp add: example_selectRelated)
  with d pw s c show ?thesis by blast
qed

section \<open>Length of the result\<close>

text \<open>
  C3.  For a non-negative \<open>maxCount\<close> the result has \<open>min(maxCount, eligible)\<close>
  entries, where the eligible posts are the corpus without the current post and without
  protected posts.  It is never longer than \<open>maxCount\<close>; when at most \<open>maxCount\<close>
  posts are eligible all of them are returned, nothing is added, and an empty corpus
  gives an empty result.
\<close>

theorem selectRelated_length:
  assumes "0 \<le> maxCount"
  shows "int (length (selectRelated rt now allPosts cur maxCount)) =
           min maxCount (int (length (filter (\<lambda>p. entry_id p \<noteq> entry_id cur \<and>
                                                  \<not> truthy (password (entry_data p))) allPosts))) \<and>
         int (length (selectRelated rt now allPosts cur maxCount)) \<le> maxCount \<and>
         (int (length (filter (\<lambda>p. entry_id p \<noteq> entry_id cur \<and>
                                   \<not> truthy (password (entry_data p))) allPosts)) \<le> maxCount \<longrightarrow>
            mset (selectRelated rt now allPosts cur maxCount) =
              mset (map (\<lambda>p. \<lparr> item_id = entry_id p, item_data = entry_data p \<rparr>)
                     (filter (\<lambda>p. entry_id p \<noteq> entry_id cur \<and>
                                  \<not> truthy (password (entry_data p))) allPosts))) \<and>
         selectRelated rt now [] cur maxCount = []"
proof -
  let ?E = "filter (\<lambda>p. entry_id p \<noteq> entry_id cur \<and> \<not> truthy (password (entry_data p))) allPosts"
  obtain T where out: "selectRelated rt now allPosts cur maxCount = map toPostForList (take (nat maxCount) T)"
    and mT: "mset T = mset (scored_mapped rt now allPosts cur)"
    using selectRelated_as_take by blast
  have E: "candidates allPosts cur = ?E" by (simp add: candidates_def)
  have "length T = length (scored_mapped rt now allPosts cur)"
    using mT by (metis size_mset)
  then have lenT: "length T = length ?E"
    by (simp add: scored_mapped_def E)
  have len: "length (selectRelated rt now allPosts cur maxCount) = min (nat maxCount) (length ?E)"
    by (simp add: out lenT min.commute)
  have l1: "int (length (selectRelated rt now allPosts cur maxCount)) = min maxCount (int (length ?E))"
    using assms by (simp add: len)
  have l2: "int (length (selectRelated rt now allPosts cur maxCount)) \<le> maxCount"
    using l1 by simp
  have all: "mset (selectRelated rt now allPosts cur maxCount) =
              mset (map (\<lambda>p. \<lparr> item_id = entry_id p, item_data = entry_data p \<rparr>) ?E)"
    if "int (length ?E) \<le> maxCount"
  proof -
    from that have "length T \<le> nat maxCount" by (simp add: lenT)
    then have "take (nat maxCount) T = T" by (rule take_all)
    then have "mset (selectRelated rt now allPosts cur maxCount) = image_mset toPostForList (mset T)"
      by (simp add: out)
    also have "mset T = mset (map (scorePost rt now cur) ?E)"
      using mT by (simp add: scored_mapped_def E)
    finally show ?thesis
      by (simp add: multiset.map_comp comp_def toPostForList_scorePost)
  qed
  have emp: "selectRelated rt now [] cur maxCount = []"
  proof -
    obtain T0 where o: "selectRelated rt now [] cur maxCount = map toPostForList (take (nat maxCount) T0)"
      and m: "mset T0 = mset (scored_mapped rt now [] cur)"
      using selectRelated_as_take by blast
    from m have "T0 = []"
      by (simp add: scored_mapped_def candidates_def)
    with o show ?thesis by simp
  qed
  from l1 l2 all emp show ?thesis by blast
qed

theorem selectRelated_length_witness:
  "(0::int) \<le> 2 \<and> (0::int) \<le> 5 \<and>
   length (selectRelated exampleRuntime 0 exampleCorpus exampleCurrent 2) = 2 \<and>
   length (selectRelated exampleRuntime 0 exampleCorpus exampleCurrent 5) = 3 \<and>
   mset (map item_id (selectRelated exampleRuntime 0 exampleCorpus exampleCurrent 5))
     = {#''n1'', ''t1'', ''n2''#}"
proof -
  have e: "filter (\<lambda>p. entry_id p \<noteq> entry_id exampleCurrent \<and>
                        \<not> truthy (password (entry_data p))) exampleCorpus =
           [examplePost ''n1'' ''cache'' (Some [''misc'']) None 0 None,
            examplePost ''t1'' ''Alpha'' (Some [''go'']) None 0 None,
            examplePost ''n2'' ''Beta'' None (Some ''systems'') 0 None]"
    by (simp add: truthy_def)
  have two: "(0::int) \<le> 2" and five: "(0::int) \<le> 5" by simp_all
  from selectRelated_length [OF two, of exampleRuntime 0 exampleCorpus exampleCurrent]
  have l2: "length (selectRelated exampleRuntime 0 exampleCorpus exampleCurrent 2) = 2"
    unfolding e by simp
  note t5 = selectRelated_length [OF five, of exampleRuntime 0 exampleCorpus exampleCurrent]
  from t5 have l5: "length (selectRelated exampleRuntime 0 exampleCorpus exampleCurrent 5) = 3"
    unfolding e by simp
  from t5 have "mset (selectRelated exampleRuntime 0 exampleCorpus exampleCurrent 5) =
     mset (map (\<lambda>p. \<lparr> item_id = entry_id p, item_data = entry_data p \<rparr>)
           [examplePost ''n1'' ''cache'' (Some [''misc'']) None 0 None,
            examplePost ''t1'' ''Alpha'' (Some [''go'']) None 0 None,
            examplePost ''n2'' ''Beta'' None (Some ''systems'') 0 None])"
    unfolding e by simp
  then have "image_mset item_id (mset (selectRelated exampleRuntime 0 exampleCorpus exampleCurrent 5))
     = {#''n1'', ''t1'', ''n2''#}"
    by simp
  then have m: "mset (map item_id (selectRelated exampleRuntime 0 exampleCorpus exampleCurrent 5))
     = {#''n1'', ''t1'', ''n2''#}"
    by simp
  from l2 l5 m show ?thesis by simp
qed

section \<open>Two tiers: tag-matched posts first\<close>

text \<open>
  C2.  The result is assembled in two tiers.  First come the tag-matched candidates
  (tag match score above 0) in descending order of total score, up to \<open>maxCount\<close>; if
  there are at least \<open>maxCount\<close> of them the result consists of tag-matched candidates
  only.  Only when that leaves the result short, it is filled from the candidates
  without a tag match, re-sorted by \<open>timeFreshnessScore + categoryBonus\<close> descending.
  The total score plays no part in the second tier and does not let a candidate without
  a tag match overtake a tag-matched one.  This holds for every corpus and every
  callback of \<open>map\<close>, so for whatever numbers the scored array holds and whatever
  addition forms the second key: the order is that of the stored numbers, be they the
  exact scores or the doubles of the engine.
\<close>

theorem selectRelated_two_tiers:
  fixes fadd :: "'n::{linorder,zero} \<Rightarrow> 'n \<Rightarrow> 'n"
    and score :: "CollectionEntry \<Rightarrow> 'n ScoredCandidate"
    and scored :: "'n ScoredCandidate list"
  shows
  "selectRelatedWith fadd score allPosts cur maxCount =
     selectFromScored fadd (map score (candidates allPosts cur)) maxCount \<and>
   selectFromScored fadd scored maxCount =
     map toPostForList (take (nat maxCount) (withTagMatchOf (sortByTotal scored))) @
     map toPostForList
       (take (nat maxCount - length (withTagMatchOf (sortByTotal scored)))
          (sortForFill fadd (withoutTagMatchOf (sortByTotal scored)))) \<and>
   sorted_wrt (\<lambda>x y. totalScore x \<ge> totalScore y) (withTagMatchOf (sortByTotal scored)) \<and>
   mset (withTagMatchOf (sortByTotal scored)) =
     filter_mset (\<lambda>s. tagMatchScore s > 0) (mset scored) \<and>
   sorted_wrt (\<lambda>x y. fadd (timeFreshnessScore x) (categoryBonus x)
                      \<ge> fadd (timeFreshnessScore y) (categoryBonus y))
     (sortForFill fadd (withoutTagMatchOf (sortByTotal scored))) \<and>
   mset (sortForFill fadd (withoutTagMatchOf (sortByTotal scored))) =
     filter_mset (\<lambda>s. tagMatchScore s = 0) (mset scored) \<and>
   (maxCount \<le> int (length (withTagMatchOf (sortByTotal scored))) \<longrightarrow>
      selectFromScored fadd scored maxCount =
        map toPostForList (take (nat maxCount) (withTagMatchOf (sortByTotal scored))) \<and>
      (\<forall>s \<in> set (take (nat maxCount) (withTagMatchOf (sortByTotal scored))). tagMatchScore s > 0))"
proof -
  define W where "W = withTagMatchOf (sortByTotal scored)"
  define V where "V = sortForFill fadd (withoutTagMatchOf (sortByTotal scored))"
  have whole: "selectRelatedWith fadd score allPosts cur maxCount =
     selectFromScored fadd (map score (candidates allPosts cur)) maxCount"
    by (simp only: selectRelatedWith_def)
  have out: "selectFromScored fadd scored maxCount =
     map toPostForList (take (nat maxCount) W) @ map toPostForList (take (nat maxCount - length W) V)"
    by (simp add: selectFromScored_take W_def V_def)
  have "sorted_wrt (\<lambda>x y. totalScore x \<ge> totalScore y) (sortByTotal scored)"
    unfolding sortByTotal_def by (rule sorted_desc_array_sort)
  then have sW: "sorted_wrt (\<lambda>x y. totalScore x \<ge> totalScore y) W"
    unfolding W_def withTagMatchOf_def by (rule sorted_wrt_filter)
  have mW: "mset W = filter_mset (\<lambda>s. tagMatchScore s > 0) (mset scored)"
    by (simp add: W_def withTagMatchOf_def mset_sortByTotal)
  have sV: "sorted_wrt (\<lambda>x y. fadd (timeFreshnessScore x) (categoryBonus x)
                               \<ge> fadd (timeFreshnessScore y) (categoryBonus y)) V"
    unfolding V_def sortForFill_def
    by (rule sorted_desc_array_sort [of "\<lambda>s. fadd (timeFreshnessScore s) (categoryBonus s)"])
  have mV: "mset V = filter_mset (\<lambda>s. tagMatchScore s = 0) (mset scored)"
    by (simp add: V_def mset_sortForFill withoutTagMatchOf_def mset_sortByTotal)
  have full: "selectFromScored fadd scored maxCount = map toPostForList (take (nat maxCount) W) \<and>
      (\<forall>s \<in> set (take (nat maxCount) W). tagMatchScore s > 0)"
    if "maxCount \<le> int (length W)"
  proof -
    from that have "nat maxCount - length W = 0" by simp
    then have "selectFromScored fadd scored maxCount = map toPostForList (take (nat maxCount) W)"
      by (simp add: out)
    moreover have "\<forall>s \<in> set W. tagMatchScore s > 0"
      by (simp add: W_def withTagMatchOf_def)
    then have "\<forall>s \<in> set (take (nat maxCount) W). tagMatchScore s > 0"
      using set_take_subset [of "nat maxCount" W] by blast
    ultimately show ?thesis by simp
  qed
  from whole out sW mW sV mV full show ?thesis
    unfolding W_def V_def by blast
qed

theorem selectRelated_two_tiers_witness:
  "map item_id (selectRelatedWith (+) (scorePost exampleRuntime 0 exampleCurrent)
                  exampleCorpus exampleCurrent 3)
     = [''t1'', ''n2'', ''n1''] \<and>
   totalScore (scorePost exampleRuntime 0 exampleCurrent
      (examplePost ''t1'' ''Alpha'' (Some [''go'']) None 0 None))
   < totalScore (scorePost exampleRuntime 0 exampleCurrent
      (examplePost ''n1'' ''cache'' (Some [''misc'']) None 0 None)) \<and>
   totalScore (scorePost exampleRuntime 0 exampleCurrent
      (examplePost ''n2'' ''Beta'' None (Some ''systems'') 0 None))
   < totalScore (scorePost exampleRuntime 0 exampleCurrent
      (examplePost ''n1'' ''cache'' (Some [''misc'']) None 0 None)) \<and>
   (1::int) \<le> int (length (withTagMatchOf (sortByTotal
      [exampleScored ''A'' (11333333333333333 / 100000000000000) (100 / 3) 30 0,
       exampleScored ''B'' (5666666666666667 / 50000000000000) (100 / 3) 30 0]))) \<and>
   map item_id (selectFromScored (+)
      [exampleScored ''A'' (11333333333333333 / 100000000000000) (100 / 3) 30 0,
       exampleScored ''B'' (5666666666666667 / 50000000000000) (100 / 3) 30 0] 1) = [''B''] \<and>
   map item_id (selectFromScored absorbingAdd
      [exampleScored ''old1'' 10 0 (1 / 4000) 10,
       exampleScored ''old2'' 10 0 (1 / 2000) 10] 1) = [''old1'']"
proof -
  let ?AB = "[exampleScored ''A'' (11333333333333333 / 100000000000000) (100 / 3) 30 0,
              exampleScored ''B'' (5666666666666667 / 50000000000000) (100 / 3) 30 0]"
  have W: "withTagMatchOf (sortByTotal ?AB) =
             [exampleScored ''B'' (5666666666666667 / 50000000000000) (100 / 3) 30 0,
              exampleScored ''A'' (11333333333333333 / 100000000000000) (100 / 3) 30 0]"
    by (simp add: eval_defs)
  then have one: "(1::int) \<le> int (length (withTagMatchOf (sortByTotal ?AB)))"
    by simp
  from selectRelated_two_tiers [of "(+)" "scorePost exampleRuntime 0 exampleCurrent"
         exampleCorpus exampleCurrent 1 ?AB] one
  have "selectFromScored (+) ?AB 1 =
          map toPostForList (take (nat 1) (withTagMatchOf (sortByTotal ?AB)))"
    by blast
  then have a: "map item_id (selectFromScored (+) ?AB 1) = [''B'']"
    by (simp add: W toPostForList_def)
  have b: "map item_id (selectRelatedWith (+) (scorePost exampleRuntime 0 exampleCurrent)
                  exampleCorpus exampleCurrent 3) = [''t1'', ''n2'', ''n1'']"
    by (simp add: example_with example_selectRelated)
  have c: "map item_id (selectFromScored absorbingAdd
      [exampleScored ''old1'' 10 0 (1 / 4000) 10,
       exampleScored ''old2'' 10 0 (1 / 2000) 10] 1) = [''old1'']"
    by (simp add: example_absorbed toPostForList_def)
  from a b c one show ?thesis
    by (simp add: example_totals)
qed

section \<open>The sort by total score is stable\<close>

text \<open>
  C4.  Sorting the scored candidates by total score descending is stable: for every
  number, the candidates with that total appear in the sorted array in the order they
  have in the scored array, which is the order of the corpus, and so they do among the
  tag-matched candidates.  The sorted array is the only stable descending arrangement of
  the scored array, so equal inputs in equal order give equal output order.  The
  statement is about the modelled \<open>sort\<close> and holds for whatever numbers the scored
  array holds.
\<close>

theorem scored_sort_stable:
  fixes score :: "CollectionEntry \<Rightarrow> ('n::{linorder,zero}) ScoredCandidate"
    and scored :: "'n ScoredCandidate list"
  shows
  "(\<forall>k. filter (\<lambda>s. totalScore s = k) (sortByTotal (map score (candidates allPosts cur))) =
         filter (\<lambda>s. totalScore s = k)
           (map score (filter (\<lambda>p. entry_id p \<noteq> entry_id cur \<and>
                                    \<not> truthy (password (entry_data p))) allPosts))) \<and>
   (\<forall>k. filter (\<lambda>s. totalScore s = k) (sortByTotal scored) =
         filter (\<lambda>s. totalScore s = k) scored) \<and>
   (\<forall>k. filter (\<lambda>s. totalScore s = k) (withTagMatchOf (sortByTotal scored)) =
         filter (\<lambda>s. totalScore s = k) (withTagMatchOf scored)) \<and>
   sorted_wrt (\<lambda>x y. totalScore x \<ge> totalScore y) (sortByTotal scored) \<and>
   mset (sortByTotal scored) = mset scored \<and>
   (\<forall>ys. sorted_wrt (\<lambda>x y. totalScore x \<ge> totalScore y) ys \<and>
         (\<forall>k. filter (\<lambda>s. totalScore s = k) ys = filter (\<lambda>s. totalScore s = k) scored)
         \<longrightarrow> ys = sortByTotal scored)"
proof -
  have st: "filter (\<lambda>s. totalScore s = k) (sortByTotal xs) = filter (\<lambda>s. totalScore s = k) xs"
    for k and xs :: "'n ScoredCandidate list"
    unfolding sortByTotal_def by (rule array_sort_stable)
  have a: "\<forall>k. filter (\<lambda>s. totalScore s = k) (sortByTotal (map score (candidates allPosts cur))) =
         filter (\<lambda>s. totalScore s = k)
           (map score (filter (\<lambda>p. entry_id p \<noteq> entry_id cur \<and>
                                    \<not> truthy (password (entry_data p))) allPosts))"
    by (simp add: st candidates_def)
  have b: "\<forall>k. filter (\<lambda>s. totalScore s = k) (sortByTotal scored) =
         filter (\<lambda>s. totalScore s = k) scored"
    by (simp add: st)
  have c: "\<forall>k. filter (\<lambda>s. totalScore s = k) (withTagMatchOf (sortByTotal scored)) =
         filter (\<lambda>s. totalScore s = k) (withTagMatchOf scored)"
  proof
    fix k
    have "filter (\<lambda>s. totalScore s = k) (filter (\<lambda>s. tagMatchScore s > 0) (sortByTotal scored)) =
            filter (\<lambda>s. tagMatchScore s > 0) (filter (\<lambda>s. totalScore s = k) (sortByTotal scored))"
      by (rule filter_swap)
    also have "\<dots> = filter (\<lambda>s. tagMatchScore s > 0) (filter (\<lambda>s. totalScore s = k) scored)"
      by (simp only: st)
    also have "\<dots> = filter (\<lambda>s. totalScore s = k) (filter (\<lambda>s. tagMatchScore s > 0) scored)"
      by (rule filter_swap)
    finally show "filter (\<lambda>s. totalScore s = k) (withTagMatchOf (sortByTotal scored)) =
            filter (\<lambda>s. totalScore s = k) (withTagMatchOf scored)"
      by (simp only: withTagMatchOf_def)
  qed
  have so: "sorted_wrt (\<lambda>x y. totalScore x \<ge> totalScore y) (sortByTotal scored)"
    unfolding sortByTotal_def by (rule sorted_desc_array_sort)
  have un: "ys = sortByTotal scored"
    if "sorted_wrt (\<lambda>x y. totalScore x \<ge> totalScore y) ys"
      and "\<forall>k. filter (\<lambda>s. totalScore s = k) ys = filter (\<lambda>s. totalScore s = k) scored" for ys
    unfolding sortByTotal_def using that by (intro array_sort_unique) simp_all
  have ms: "mset (sortByTotal scored) = mset scored"
    by (rule mset_sortByTotal)
  from a b c so ms un show ?thesis
    by blast
qed

theorem scored_sort_stable_witness:
  "totalScore (scorePost exampleRuntime 0 exampleCurrent (examplePost ''a'' ''Alpha'' None None 0 None))
     = totalScore (scorePost exampleRuntime 0 exampleCurrent (examplePost ''b'' ''Beta'' None None 0 None)) \<and>
   map (\<lambda>s. entry_id (post s))
     (sortByTotal (map (scorePost exampleRuntime 0 exampleCurrent)
        [examplePost ''a'' ''Alpha'' None None 0 None, examplePost ''b'' ''Beta'' None None 0 None]))
     = [''a'', ''b''] \<and>
   map (\<lambda>s. entry_id (post s))
     (sortByTotal (map (scorePost exampleRuntime 0 exampleCurrent)
        [examplePost ''b'' ''Beta'' None None 0 None, examplePost ''a'' ''Alpha'' None None 0 None]))
     = [''b'', ''a''] \<and>
   map (\<lambda>s. entry_id (post s))
     (sortByTotal
        [exampleScored ''A'' (11333333333333333 / 100000000000000) (100 / 3) 30 0,
         exampleScored ''B'' (5666666666666667 / 50000000000000) (100 / 3) 30 0])
     = [''B'', ''A'']"
proof -
  let ?a = "examplePost ''a'' ''Alpha'' None None 0 None"
  let ?b = "examplePost ''b'' ''Beta'' None None 0 None"
  let ?sc = "scorePost exampleRuntime 0 exampleCurrent"
  have ta: "totalScore (?sc ?a) = 30" and tb: "totalScore (?sc ?b) = 30"
    by (simp_all add: eval_defs)
  have "[?sc ?a, ?sc ?b] = sortByTotal [?sc ?a, ?sc ?b]"
  proof -
    have "sorted_wrt (\<lambda>x y. totalScore x \<ge> totalScore y) [?sc ?a, ?sc ?b]"
      by (simp add: ta tb)
    moreover have "\<forall>k. filter (\<lambda>s. totalScore s = k) [?sc ?a, ?sc ?b] =
               filter (\<lambda>s. totalScore s = k) [?sc ?a, ?sc ?b]"
      by (simp only: simp_thms)
    ultimately show ?thesis
      using scored_sort_stable [of ?sc "[?a, ?b]" exampleCurrent "[?sc ?a, ?sc ?b]"] by blast
  qed
  from this [symmetric] have ab: "map (\<lambda>s. entry_id (post s)) (sortByTotal (map ?sc [?a, ?b]))
      = [''a'', ''b'']"
    by (simp add: post_scorePost)
  have "[?sc ?b, ?sc ?a] = sortByTotal [?sc ?b, ?sc ?a]"
  proof -
    have "sorted_wrt (\<lambda>x y. totalScore x \<ge> totalScore y) [?sc ?b, ?sc ?a]"
      by (simp add: ta tb)
    moreover have "\<forall>k. filter (\<lambda>s. totalScore s = k) [?sc ?b, ?sc ?a] =
               filter (\<lambda>s. totalScore s = k) [?sc ?b, ?sc ?a]"
      by (simp only: simp_thms)
    ultimately show ?thesis
      using scored_sort_stable [of ?sc "[?b, ?a]" exampleCurrent "[?sc ?b, ?sc ?a]"] by blast
  qed
  from this [symmetric] have ba: "map (\<lambda>s. entry_id (post s)) (sortByTotal (map ?sc [?b, ?a]))
      = [''b'', ''a'']"
    by (simp add: post_scorePost)
  have near: "map (\<lambda>s. entry_id (post s))
     (sortByTotal
        [exampleScored ''A'' (11333333333333333 / 100000000000000) (100 / 3) 30 0,
         exampleScored ''B'' (5666666666666667 / 50000000000000) (100 / 3) 30 0])
     = [''B'', ''A'']"
    by (simp add: eval_defs)
  from ta tb ab ba near show ?thesis by simp
qed

section \<open>Errors\<close>




end
